theory Spec2Isabelle
  imports Main
begin

section \<open>Values of the export pipeline\<close>

text \<open>
  The snapshot that \<^verbatim>\<open>exportData\<close> works on is the deserialised body of the sync call, so
  the data nested inside a task, project or collaborator record is JSON data: \<open>json\<close>.
  A number is carried as the string that \<^verbatim>\<open>Number.prototype.toString\<close> gives for it
  (\<^verbatim>\<open>42\<close>, \<^verbatim>\<open>-7\<close>, \<^verbatim>\<open>1.5\<close>, \<^verbatim>\<open>1e+21\<close>): two numbers are equal when their strings are,
  and the transforms never compute with a number, they only print it, test it for zero and
  compare it with zero.
  An object is the finite map of its own properties: the order in which properties are
  enumerated is not part of the model.
\<close>

datatype json =
    JNull
  | JBool bool
  | JNum string
  | JStr string
  | JArr "json list"
  | JObj "string \<Rightarrow> json option"

text \<open>
  The value of a property of a record is JSON data, or one of the two things a lookup in
  the id-to-name table can produce besides: \<^verbatim>\<open>undefined\<close>, and a member that the table (a
  plain object) inherits from \<^verbatim>\<open>Object.prototype\<close>, named by its property name.
\<close>

datatype jsval =
    Undefined
  | Inherited string
  | Json json

type_synonym jsobj = "string \<Rightarrow> jsval option"

datatype js_error = TypeError | UpstreamError

text \<open>Static property access \<^verbatim>\<open>obj.name\<close> for a name that \<^verbatim>\<open>Object.prototype\<close> does not have.\<close>

definition field :: "jsobj \<Rightarrow> string \<Rightarrow> jsval" where
  "field obj name = (case obj name of None \<Rightarrow> Undefined | Some v \<Rightarrow> v)"

text \<open>\<^verbatim>\<open>Array.prototype.map\<close> with a callback that may throw: the first throw ends the call.\<close>

fun mapE :: "('a \<Rightarrow> js_error + 'b) \<Rightarrow> 'a list \<Rightarrow> js_error + 'b list" where
  "mapE f [] = Inr []"
| "mapE f (x # xs) =
     (case f x of
        Inl e \<Rightarrow> Inl e
      | Inr y \<Rightarrow> (case mapE f xs of Inl e \<Rightarrow> Inl e | Inr ys \<Rightarrow> Inr (y # ys)))"

subsection \<open>Conversion to strings\<close>

text \<open>\<^verbatim>\<open>Array.prototype.join(",")\<close> on the strings of the elements.\<close>

fun join_comma :: "string list \<Rightarrow> string" where
  "join_comma [] = []"
| "join_comma [s] = s"
| "join_comma (s # t # ss) = s @ '','' @ join_comma (t # ss)"

text \<open>
  The abstract operation \<^verbatim>\<open>ToString\<close> on JSON data. An array is joined with commas, a null
  element giving the empty string. A plain object is converted by \<^verbatim>\<open>OrdinaryToPrimitive\<close>:
  without an own property \<^verbatim>\<open>toString\<close> it inherits the one of \<^verbatim>\<open>Object.prototype\<close>; with
  one, that property is JSON data, which is not callable, and the inherited \<^verbatim>\<open>valueOf\<close>
  returns the object itself, so the conversion throws.
\<close>

primrec ToString :: "json \<Rightarrow> js_error + string"
    and ToStrings :: "json list \<Rightarrow> js_error + string list" where
  "ToString JNull = Inr ''null''"
| "ToString (JBool b) = Inr (if b then ''true'' else ''false'')"
| "ToString (JNum n) = Inr n"
| "ToString (JStr s) = Inr s"
| "ToString (JArr xs) =
     (case ToStrings xs of Inl e \<Rightarrow> Inl e | Inr ss \<Rightarrow> Inr (join_comma ss))"
| "ToString (JObj m) =
     (case m ''toString'' of None \<Rightarrow> Inr ''[object Object]'' | Some _ \<Rightarrow> Inl TypeError)"
| "ToStrings [] = Inr []"
| "ToStrings (x # xs) =
     (case (case x of JNull \<Rightarrow> Inr [] | _ \<Rightarrow> ToString x) of
        Inl e \<Rightarrow> Inl e
      | Inr s \<Rightarrow> (case ToStrings xs of Inl e \<Rightarrow> Inl e | Inr ss \<Rightarrow> Inr (s # ss)))"


subsection \<open>Members inherited from the prototype of a plain object\<close>

text \<open>
  The id-to-name tables are plain objects, so a computed lookup \<^verbatim>\<open>table[key]\<close> that finds no
  own property goes on to \<^verbatim>\<open>Object.prototype\<close>. These are its property names in Node.js.
  All are built-in functions but \<^verbatim>\<open>__proto__\<close>, whose getter returns the prototype object.
\<close>

definition object_prototype_names :: "string list" where
  "object_prototype_names =
     [''constructor'', ''__defineGetter__'', ''__defineSetter__'', ''hasOwnProperty'',
      ''__lookupGetter__'', ''__lookupSetter__'', ''isPrototypeOf'', ''propertyIsEnumerable'',
      ''toString'', ''valueOf'', ''__proto__'', ''toLocaleString'']"

text \<open>The string of an inherited member: the source text of a built-in function.\<close>

definition inherited_to_string :: "string \<Rightarrow> string" where
  "inherited_to_string name =
     (if name = ''__proto__'' then ''[object Object]''
      else ''function '' @ (if name = ''constructor'' then ''Object'' else name)
             @ ''() { [native code] }'')"

text \<open>
  The \<^verbatim>\<open>length\<close> of an inherited member: the arity of a built-in function; the prototype
  object has none.
\<close>

definition inherited_length :: "string \<Rightarrow> nat option" where
  "inherited_length name =
     (if name = ''__proto__'' then None
      else if name \<in> {''__defineGetter__'', ''__defineSetter__''} then Some 2
      else if name \<in> {''toString'', ''valueOf'', ''toLocaleString''} then Some 0
      else Some 1)"

subsection \<open>Coercions used by the transforms\<close>

text \<open>\<^verbatim>\<open>ToPropertyKey\<close>: the key under which a computed property name is stored and looked up.\<close>

definition ToPropertyKey :: "jsval \<Rightarrow> js_error + string" where
  "ToPropertyKey v =
     (case v of
        Undefined \<Rightarrow> Inr ''undefined''
      | Inherited name \<Rightarrow> Inr (inherited_to_string name)
      | Json j \<Rightarrow> ToString j)"

text \<open>The computed member access \<^verbatim>\<open>table[x]\<close> on a plain object.\<close>

definition member :: "jsobj \<Rightarrow> jsval \<Rightarrow> js_error + jsval" where
  "member table x =
     (case ToPropertyKey x of
        Inl e \<Rightarrow> Inl e
      | Inr k \<Rightarrow>
          Inr (case table k of
                 Some v \<Rightarrow> v
               | None \<Rightarrow> if k \<in> set object_prototype_names then Inherited k else Undefined))"

text \<open>
  The strings that \<^verbatim>\<open>Number.prototype.toString\<close> can give: the names of the three values
  that are not finite, or digits with a sign, a point and an exponent. The number of a
  \<open>JNum\<close> has such a string (the predicate admits more strings than there are numbers).
\<close>

definition number_text :: "string \<Rightarrow> bool" where
  "number_text s =
     (s = ''NaN'' \<or> s = ''Infinity'' \<or> s = ''-Infinity''
      \<or> (s \<noteq> [] \<and> list_all (\<lambda>c. c \<in> set ''0123456789-+.e'') s))"

text \<open>
  A number is zero when it prints as \<^verbatim>\<open>0\<close> (both zeros do), and is greater than zero when
  it is not zero, not \<^verbatim>\<open>NaN\<close> and prints without a minus sign.
\<close>

definition number_gt_zero :: "string \<Rightarrow> bool" where
  "number_gt_zero s = (s \<noteq> ''0'' \<and> s \<noteq> ''NaN'' \<and> \<not> (case s of [] \<Rightarrow> True | c # _ \<Rightarrow> c = CHR ''-''))"

text \<open>\<^verbatim>\<open>ToBoolean\<close>.\<close>

definition truthy :: "jsval \<Rightarrow> bool" where
  "truthy v =
     (case v of
        Undefined \<Rightarrow> False
      | Inherited _ \<Rightarrow> True
      | Json JNull \<Rightarrow> False
      | Json (JBool b) \<Rightarrow> b
      | Json (JNum n) \<Rightarrow> n \<noteq> ''0'' \<and> n \<noteq> ''NaN''
      | Json (JStr s) \<Rightarrow> s \<noteq> []
      | Json (JArr _) \<Rightarrow> True
      | Json (JObj _) \<Rightarrow> True)"

text \<open>\<^verbatim>\<open>v || null\<close>.\<close>

definition or_null :: "jsval \<Rightarrow> jsval" where
  "or_null v = (if truthy v then v else Json JNull)"

text \<open>
  \<^verbatim>\<open>x > 0\<close> for JSON data \<open>x\<close>. A string operand is converted by the engine's
  \<^verbatim>\<open>StringToNumber\<close>, which parses floating-point literals; whether the number it yields
  is positive is the parameter \<open>string_gt_zero\<close>. An array is first converted to its
  string; a plain object is converted to \<^verbatim>\<open>"[object Object]"\<close>, which is not a number,
  unless it has an own property \<^verbatim>\<open>toString\<close>, and then the conversion throws.
\<close>

definition gt_zero :: "(string \<Rightarrow> bool) \<Rightarrow> json \<Rightarrow> js_error + bool" where
  "gt_zero string_gt_zero x =
     (case x of
        JNull \<Rightarrow> Inr False
      | JBool b \<Rightarrow> Inr b
      | JNum n \<Rightarrow> Inr (number_gt_zero n)
      | JStr s \<Rightarrow> Inr (string_gt_zero s)
      | JArr xs \<Rightarrow>
          (case ToString (JArr xs) of Inl e \<Rightarrow> Inl e | Inr s \<Rightarrow> Inr (string_gt_zero s))
      | JObj m \<Rightarrow>
          (case m ''toString'' of None \<Rightarrow> Inr False | Some _ \<Rightarrow> Inl TypeError))"

text \<open>
  \<^verbatim>\<open>v?.length > 0\<close>. Of \<^verbatim>\<open>undefined\<close> and \<^verbatim>\<open>null\<close> the optional chain gives \<^verbatim>\<open>undefined\<close>,
  and so does the \<^verbatim>\<open>length\<close> of a boolean, of a number and of an object that has no
  such property: the comparison is false. A string and an array have the number of their
  elements, a built-in function its arity, and an object with an own property \<^verbatim>\<open>length\<close>
  has the JSON data stored there.
\<close>

definition length_gt_zero :: "(string \<Rightarrow> bool) \<Rightarrow> jsval \<Rightarrow> js_error + bool" where
  "length_gt_zero string_gt_zero v =
     (case v of
        Undefined \<Rightarrow> Inr False
      | Inherited name \<Rightarrow>
          Inr (case inherited_length name of None \<Rightarrow> False | Some arity \<Rightarrow> 0 < arity)
      | Json JNull \<Rightarrow> Inr False
      | Json (JBool _) \<Rightarrow> Inr False
      | Json (JNum _) \<Rightarrow> Inr False
      | Json (JStr s) \<Rightarrow> Inr (s \<noteq> [])
      | Json (JArr xs) \<Rightarrow> Inr (xs \<noteq> [])
      | Json (JObj m) \<Rightarrow>
          (case m ''length'' of None \<Rightarrow> Inr False | Some x \<Rightarrow> gt_zero string_gt_zero x))"

text \<open>
  The method call \<^verbatim>\<open>v.join(",")\<close>: only an array has a callable \<^verbatim>\<open>join\<close> (a property
  \<^verbatim>\<open>join\<close> of a deserialised object is data).
\<close>

definition join_method :: "jsval \<Rightarrow> js_error + string" where
  "join_method v = (case v of Json (JArr xs) \<Rightarrow> ToString (JArr xs) | _ \<Rightarrow> Inl TypeError)"

text \<open>
  The method call \<^verbatim>\<open>v.toString()\<close>: reading the property of \<^verbatim>\<open>undefined\<close> or \<^verbatim>\<open>null\<close>
  throws; every other value has the method of its prototype, which gives the same string
  as \<^verbatim>\<open>ToString\<close> (an own property \<^verbatim>\<open>toString\<close> of a deserialised object is not callable).
\<close>

definition toString_method :: "jsval \<Rightarrow> js_error + string" where
  "toString_method v =
     (case v of
        Undefined \<Rightarrow> Inl TypeError
      | Inherited name \<Rightarrow> Inr (inherited_to_string name)
      | Json JNull \<Rightarrow> Inl TypeError
      | Json j \<Rightarrow> ToString j)"

text \<open>The template literal that puts one quote character on each side of a string.\<close>

definition quoted :: "string \<Rightarrow> string" where
  "quoted s = CHR 0x22 # s @ [CHR 0x22]"

section \<open>The snapshot and its transforms\<close>

record snapshot =
  items :: "jsobj list"
  projects :: "jsobj list"
  collaborators :: "jsobj list"
  user :: jsobj
  completed :: "jsobj list option"

text \<open>
  The snapshot has the shape of the data model: \<^verbatim>\<open>items\<close>, \<^verbatim>\<open>projects\<close> and
  \<^verbatim>\<open>collaborators\<close> are arrays of objects and \<^verbatim>\<open>user\<close> is an object; a body of another
  shape is not represented. The values of the properties are not typed any further.
  The field \<open>completed\<close> is the \<^verbatim>\<open>results\<close> array of the object that \<^verbatim>\<open>exportData\<close> attaches
  as \<^verbatim>\<open>syncData.completed\<close>; \<open>None\<close> when nothing was attached.
\<close>

text \<open>
  \<^verbatim>\<open>
  const escapeCommas = (syncData) =>
    syncData.items.map((item) => ({
      ...item,
      labels: item.labels?.length > 0 ? `"${item.labels.join(",")}"` : null,
      content: `"${item.content.toString()}"`,
    }));
  \<close>
  The callback, property by property: the conditional expression for \<^verbatim>\<open>labels\<close>, the
  template literal for \<^verbatim>\<open>content\<close>, and the object literal that spreads the item and sets
  both, in that order of evaluation.
\<close>

definition escaped_labels :: "(string \<Rightarrow> bool) \<Rightarrow> jsobj \<Rightarrow> js_error + jsval" where
  "escaped_labels string_gt_zero item =
     (case length_gt_zero string_gt_zero (field item ''labels'') of
        Inl e \<Rightarrow> Inl e
      | Inr True \<Rightarrow>
          (case join_method (field item ''labels'') of
             Inl e \<Rightarrow> Inl e
           | Inr joined \<Rightarrow> Inr (Json (JStr (quoted joined))))
      | Inr False \<Rightarrow> Inr (Json JNull))"

definition escaped_content :: "jsobj \<Rightarrow> js_error + jsval" where
  "escaped_content item =
     (case toString_method (field item ''content'') of
        Inl e \<Rightarrow> Inl e
      | Inr str \<Rightarrow> Inr (Json (JStr (quoted str))))"

definition escapeCommas_item :: "(string \<Rightarrow> bool) \<Rightarrow> jsobj \<Rightarrow> js_error + jsobj" where
  "escapeCommas_item string_gt_zero item =
     (case escaped_labels string_gt_zero item of
        Inl e \<Rightarrow> Inl e
      | Inr labels \<Rightarrow>
          (case escaped_content item of
             Inl e \<Rightarrow> Inl e
           | Inr content \<Rightarrow> Inr (item(''labels'' \<mapsto> labels, ''content'' \<mapsto> content))))"

definition escapeCommas :: "(string \<Rightarrow> bool) \<Rightarrow> snapshot \<Rightarrow> js_error + jsobj list" where
  "escapeCommas string_gt_zero syncData =
     mapE (escapeCommas_item string_gt_zero) (items syncData)"

text \<open>
  \<^verbatim>\<open>
  const convertProjectNames = (syncData) => {
    const projectNames = syncData.projects.reduce(
      (acc, project) => ({ ...acc, [project.id]: project.name }), {});
    return syncData.items.map((item) => ({
      ...item,
      project_id: projectNames[item.project_id],
    }));
  };
  \<close>
  \<^verbatim>\<open>convertUserNames\<close> builds \<^verbatim>\<open>userNames\<close> from \<^verbatim>\<open>syncData.collaborators\<close> in the same way,
  with \<^verbatim>\<open>collaborator.full_name\<close> as the value, and maps each item to
  \<^verbatim>\<open>
      ...item,
      assigned_by_uid: userNames[item.assigned_by_uid] || null,
      added_by_uid: userNames[item.added_by_uid] || null,
      user_id: userNames[item.user_id] || null,
  \<close>
  The \<^verbatim>\<open>reduce\<close> that builds an id-to-name table: each record stores the value of its
  property \<open>name_field\<close> under the key of its \<^verbatim>\<open>id\<close>, a later record replacing an earlier
  one with the same key.
\<close>

fun reduce_names :: "string \<Rightarrow> jsobj list \<Rightarrow> jsobj \<Rightarrow> js_error + jsobj" where
  "reduce_names name_field [] acc = Inr acc"
| "reduce_names name_field (r # rs) acc =
     (case ToPropertyKey (field r ''id'') of
        Inl e \<Rightarrow> Inl e
      | Inr k \<Rightarrow> reduce_names name_field rs (acc(k \<mapsto> field r name_field)))"

text \<open>The callback of \<^verbatim>\<open>convertProjectNames\<close>, given the table \<^verbatim>\<open>projectNames\<close>.\<close>

definition convertProjectNames_item :: "jsobj \<Rightarrow> jsobj \<Rightarrow> js_error + jsobj" where
  "convertProjectNames_item projectNames item =
     (case member projectNames (field item ''project_id'') of
        Inl e \<Rightarrow> Inl e
      | Inr name \<Rightarrow> Inr (item(''project_id'' \<mapsto> name)))"

definition convertProjectNames :: "snapshot \<Rightarrow> js_error + jsobj list" where
  "convertProjectNames syncData =
     (case reduce_names ''name'' (projects syncData) Map.empty of
        Inl e \<Rightarrow> Inl e
      | Inr projectNames \<Rightarrow> mapE (convertProjectNames_item projectNames) (items syncData))"

text \<open>The callback of \<^verbatim>\<open>convertUserNames\<close>, given the table \<^verbatim>\<open>userNames\<close>.\<close>

definition convertUserNames_item :: "jsobj \<Rightarrow> jsobj \<Rightarrow> js_error + jsobj" where
  "convertUserNames_item userNames item =
     (case member userNames (field item ''assigned_by_uid'') of
        Inl e \<Rightarrow> Inl e
      | Inr assigner \<Rightarrow>
     (case member userNames (field item ''added_by_uid'') of
        Inl e \<Rightarrow> Inl e
      | Inr adder \<Rightarrow>
     (case member userNames (field item ''user_id'') of
        Inl e \<Rightarrow> Inl e
      | Inr owner \<Rightarrow>
          Inr (item(''assigned_by_uid'' \<mapsto> or_null assigner,
                    ''added_by_uid'' \<mapsto> or_null adder,
                    ''user_id'' \<mapsto> or_null owner)))))"

definition convertUserNames :: "snapshot \<Rightarrow> js_error + jsobj list" where
  "convertUserNames syncData =
     (case reduce_names ''full_name'' (collaborators syncData) Map.empty of
        Inl e \<Rightarrow> Inl e
      | Inr userNames \<Rightarrow> mapE (convertUserNames_item userNames) (items syncData))"

section \<open>Fetching the completed tasks\<close>

definition COMPL_MAX_PAGE_SIZE :: nat where
  "COMPL_MAX_PAGE_SIZE = 200"

definition FORMAT_SUFFIX_INCLUDE_ARCHIVED :: string where
  "FORMAT_SUFFIX_INCLUDE_ARCHIVED = ''_all''"

text \<open>
  The query of one call to the completed-tasks endpoint, and the page it answers with:
  \<open>results\<close> is \<open>None\<close> when the page has no (or a null) \<^verbatim>\<open>results\<close>, and \<open>next_cursor\<close> is
  \<open>None\<close> when the page has no (or a null) \<^verbatim>\<open>next_cursor\<close>.
\<close>

record params =
  limit :: nat
  cursor :: "string option"

record page =
  results :: "jsobj list option"
  next_cursor :: "string option"

text \<open>
  The upstream call \<^verbatim>\<open>callRestApi("tasks/completed", token, params)\<close> is a parameter of the
  model, a function of the token and the query. It is rejected (an error status or a
  network fault make the HTTP client throw) or resolves to the deserialised body, which is
  \<open>None\<close> when the body is \<^verbatim>\<open>null\<close> or missing.
\<close>

datatype page_response = Rejected | Resolved "page option"

text \<open>Truth of a cursor: a string that is not empty.\<close>

definition cursor_truthy :: "string option \<Rightarrow> bool" where
  "cursor_truthy c = (case c of None \<Rightarrow> False | Some s \<Rightarrow> s \<noteq> [])"

text \<open>\<^verbatim>\<open>page.results || []\<close>: an array, even an empty one, is truthy.\<close>

definition results_or_empty :: "page \<Rightarrow> jsobj list" where
  "results_or_empty p = (case results p of None \<Rightarrow> [] | Some rs \<Rightarrow> rs)"

text \<open>
  \<^verbatim>\<open>
  const fetchCompleted = async function (token, cursor = null) {
    let page;
    try {
      const params = { limit: COMPL_MAX_PAGE_SIZE };
      if (cursor) params.cursor = cursor;
      page = await callRestApi("tasks/completed", token, params);
    } catch (error) {
      ... (the error is logged)
      return { results: [] };
    }
    if (page.next_cursor) {
      const remainder = await fetchCompleted(token, page.next_cursor);
      return { results: (page.results || []).concat(remainder.results) };
    } else {
      return { results: page.results || [] };
    }
  };
  \<close>
  The model returns the queries the function has sent, in order, and either the
  \<^verbatim>\<open>results\<close> array of the object it resolves to or the error it throws: reading
  \<^verbatim>\<open>next_cursor\<close> of a missing body happens outside the \<^verbatim>\<open>try\<close> block. The recursion has
  no bound of its own, so the function is partial: \<open>None\<close> is a run that never returns.
\<close>

partial_function (option) fetchCompleted ::
  "(string \<Rightarrow> params \<Rightarrow> page_response) \<Rightarrow> string \<Rightarrow> string option
     \<Rightarrow> (params list \<times> (js_error + jsobj list)) option" where
  "fetchCompleted callRestApi token cur =
     (let query = \<lparr>limit = COMPL_MAX_PAGE_SIZE,
                   cursor = (if cursor_truthy cur then cur else None)\<rparr> in
      case callRestApi token query of
        Rejected \<Rightarrow> Some ([query], Inr [])
      | Resolved None \<Rightarrow> Some ([query], Inl TypeError)
      | Resolved (Some page) \<Rightarrow>
          if cursor_truthy (next_cursor page) then
            Option.bind (fetchCompleted callRestApi token (next_cursor page))
              (\<lambda>(sent, remainder).
                 case remainder of
                   Inl e \<Rightarrow> Some (query # sent, Inl e)
                 | Inr rest \<Rightarrow> Some (query # sent, Inr (results_or_empty page @ rest)))
          else Some ([query], Inr (results_or_empty page)))"

section \<open>The export\<close>

text \<open>\<^verbatim>\<open>String.prototype.includes\<close> and \<^verbatim>\<open>String.prototype.replace\<close> with a string pattern.\<close>

fun starts_with :: "string \<Rightarrow> string \<Rightarrow> bool" where
  "starts_with s [] = True"
| "starts_with [] (p # ps) = False"
| "starts_with (c # cs) (p # ps) = (c = p \<and> starts_with cs ps)"

fun string_includes :: "string \<Rightarrow> string \<Rightarrow> bool" where
  "string_includes [] pat = (pat = [])"
| "string_includes (c # cs) pat = (starts_with (c # cs) pat \<or> string_includes cs pat)"

fun replace_first :: "string \<Rightarrow> string \<Rightarrow> string \<Rightarrow> string" where
  "replace_first [] pat rep = (if pat = [] then rep else [])"
| "replace_first (c # cs) pat rep =
     (if starts_with (c # cs) pat then rep @ drop (length pat) (c # cs)
      else c # replace_first cs pat rep)"

text \<open>What the response carries when \<^verbatim>\<open>exportData\<close> is done with it.\<close>

datatype body = JsonBody snapshot | CsvBody string

datatype response =
    ErrorPage nat string
  | Attachment string body
  | NoResponse

text \<open>
  The error object handed to \<^verbatim>\<open>renderErrorPage\<close>, as far as the function reads it for
  the response: \<^verbatim>\<open>res.status((error && error.status) || 500)\<close>.
\<close>

record error_obj =
  status :: "nat option"

definition renderErrorPage :: "string \<Rightarrow> error_obj option \<Rightarrow> response" where
  "renderErrorPage message error =
     ErrorPage
       (case error of
          None \<Rightarrow> 500
        | Some e \<Rightarrow> (case status e of None \<Rightarrow> 500 | Some n \<Rightarrow> if n = 0 then 500 else n))
       message"

text \<open>
  The sync call resolves to the snapshot, resolves to \<^verbatim>\<open>undefined\<close> (\<open>None\<close>) or is rejected.
\<close>

datatype sync_response = SyncRejected | SyncResolved "snapshot option"

text \<open>
  What \<^verbatim>\<open>exportData\<close> does not own: the two upstream calls, the CSV encoder, and the
  engine's comparison of a string with zero.
\<close>

record runtime =
  callApi_sync :: "string \<Rightarrow> sync_response"
  callRestApi_completed :: "string \<Rightarrow> params \<Rightarrow> page_response"
  json2csv :: "jsobj list \<Rightarrow> error_obj + string"
  string_gt_zero :: "string \<Rightarrow> bool"

text \<open>
  The second half of \<^verbatim>\<open>exportData\<close>, the branch on the format left after the suffix is
  cut: the JSON file, or the three transforms in turn and the CSV encoder, or nothing.
  \<^verbatim>\<open>
  if (format === "json") {
    res.attachment("todoist.json");
    await res.json(syncData);
  } else if (format === "csv") {
    syncData.items = convertProjectNames(syncData);
    syncData.items = convertUserNames(syncData);
    syncData.items = escapeCommas(syncData);
    try {
      csvParser.json2csv(syncData.items, (error, csv) => {
        if (error) { return renderErrorPage(res, "CSV export error.", error); }
        res.attachment("todoist.csv");
        res.send(csv);
      });
    } catch (error) {
      return renderErrorPage(res, "CSV export error.", error);
    }
  }
  \<close>
\<close>

definition emit :: "runtime \<Rightarrow> string \<Rightarrow> snapshot \<Rightarrow> js_error + response" where
  "emit rt format syncData =
     (if format = ''json'' then Inr (Attachment ''todoist.json'' (JsonBody syncData))
      else if format = ''csv'' then
        (case convertProjectNames syncData of
           Inl e \<Rightarrow> Inl e
         | Inr named \<Rightarrow>
        (case convertUserNames (syncData\<lparr>items := named\<rparr>) of
           Inl e \<Rightarrow> Inl e
         | Inr usered \<Rightarrow>
        (case escapeCommas (string_gt_zero rt) (syncData\<lparr>items := usered\<rparr>) of
           Inl e \<Rightarrow> Inl e
         | Inr escaped \<Rightarrow>
            (case json2csv rt escaped of
               Inl error \<Rightarrow> Inr (renderErrorPage ''CSV export error.'' (Some error))
             | Inr csv \<Rightarrow> Inr (Attachment ''todoist.csv'' (CsvBody csv))))))
      else Inr NoResponse)"

text \<open>
  \<^verbatim>\<open>
  const exportData = async (res, token, format = "csv") => {
    const syncData = await callApi("sync", {...});
    if (syncData === undefined) {
      return renderErrorPage(res, "Could not fetch data from Todoist.");
    }
    if (format.includes(FORMAT_SUFFIX_INCLUDE_ARCHIVED)) {
      if (!syncData.user.is_premium) {
        return renderErrorPage(res, "Must be Todoist Premium to export archived items.");
      }
      format = format.replace(FORMAT_SUFFIX_INCLUDE_ARCHIVED, "");
      const completedData = await fetchCompleted(token);
      syncData.completed = completedData;
      syncData.items = syncData.items.concat(completedData.results || []);
    }
    if (format === "json") { ... } else if (format === "csv") { ... }
  };
  \<close>
  The model returns what the function did with the response, or the error it throws to
  the route handler, and the queries sent to the completed-tasks endpoint. The format is
  \<open>None\<close> when the request has none.
\<close>

definition exportData ::
  "runtime \<Rightarrow> string \<Rightarrow> string option \<Rightarrow> ((js_error + response) \<times> params list) option" where
  "exportData rt token format_arg =
     (let format = (case format_arg of None \<Rightarrow> ''csv'' | Some f \<Rightarrow> f) in
      case callApi_sync rt token of
        SyncRejected \<Rightarrow> Some (Inl UpstreamError, [])
      | SyncResolved None \<Rightarrow>
          Some (Inr (renderErrorPage ''Could not fetch data from Todoist.'' None), [])
      | SyncResolved (Some syncData) \<Rightarrow>
          if string_includes format FORMAT_SUFFIX_INCLUDE_ARCHIVED then
            if \<not> truthy (field (user syncData) ''is_premium'') then
              Some (Inr (renderErrorPage
                           ''Must be Todoist Premium to export archived items.'' None), [])
            else
              (case fetchCompleted (callRestApi_completed rt) token None of
                 None \<Rightarrow> None
               | Some (sent, Inl e) \<Rightarrow> Some (Inl e, sent)
               | Some (sent, Inr completedData) \<Rightarrow>
                   Some (emit rt (replace_first format FORMAT_SUFFIX_INCLUDE_ARCHIVED [])
                           (syncData\<lparr>completed := Some completedData,
                                     items := items syncData @ completedData\<rparr>),
                         sent))
          else Some (emit rt format syncData, []))"

section \<open>Notions used to state the properties\<close>

text \<open>A value that is neither an array nor an object: an identifier, or none.\<close>

definition scalar :: "jsval \<Rightarrow> bool" where
  "scalar v = (case v of Json (JArr _) \<Rightarrow> False | Json (JObj _) \<Rightarrow> False | _ \<Rightarrow> True)"

text \<open>
  The items of the data model: the content is a string, a number or a boolean, and the
  labels are absent, null or an array of strings.
\<close>

definition textual :: "jsval \<Rightarrow> bool" where
  "textual v =
     (case v of Json (JStr _) \<Rightarrow> True | Json (JNum _) \<Rightarrow> True | Json (JBool _) \<Rightarrow> True
      | _ \<Rightarrow> False)"

definition is_string :: "json \<Rightarrow> bool" where
  "is_string j = (case j of JStr _ \<Rightarrow> True | _ \<Rightarrow> False)"

definition label_list :: "jsval \<Rightarrow> bool" where
  "label_list v =
     (case v of
        Undefined \<Rightarrow> True
      | Json JNull \<Rightarrow> True
      | Json (JArr ls) \<Rightarrow> list_all is_string ls
      | _ \<Rightarrow> False)"

text \<open>The class of HTTP status codes that blame the request.\<close>

definition client_error_status :: "nat \<Rightarrow> bool" where
  "client_error_status code = (400 \<le> code \<and> code < 500)"



section \<open>Example snapshots\<close>

text \<open>
  The scenario of the specification: one project, one item in it with two labels; the
  items expected from the transforms; a snapshot whose only item has a number as content,
  one whose item has a null content, one whose item has no content, and one whose item
  refers to a project and to an owner that the snapshot does not have, with the item that
  \<^verbatim>\<open>convertProjectNames\<close> makes of it.
\<close>

definition scenario :: snapshot where
  "scenario =
     \<lparr>items = [[''id'' \<mapsto> Json (JNum ''10''), ''project_id'' \<mapsto> Json (JNum ''1''),
                ''content'' \<mapsto> Json (JStr ''buy milk''),
                ''labels'' \<mapsto> Json (JArr [JStr ''urgent'', JStr ''home''])]],
      projects = [[''id'' \<mapsto> Json (JNum ''1''), ''name'' \<mapsto> Json (JStr ''Work'')]],
      collaborators = [],
      user = Map.empty,
      completed = None\<rparr>"

definition numbered :: snapshot where
  "numbered =
     \<lparr>items = [[''content'' \<mapsto> Json (JNum ''42'')]],
      projects = [], collaborators = [], user = Map.empty, completed = None\<rparr>"

definition untitled :: snapshot where
  "untitled =
     \<lparr>items = [[''id'' \<mapsto> Json (JNum ''7''), ''content'' \<mapsto> Json JNull]],
      projects = [], collaborators = [], user = Map.empty, completed = None\<rparr>"

definition contentless :: snapshot where
  "contentless =
     \<lparr>items = [[''id'' \<mapsto> Json (JNum ''8''), ''labels'' \<mapsto> Json (JArr [JStr ''later''])]],
      projects = [], collaborators = [], user = Map.empty, completed = None\<rparr>"

definition scenario_named :: "jsobj list" where
  "scenario_named =
     [[''id'' \<mapsto> Json (JNum ''10''), ''project_id'' \<mapsto> Json (JStr ''Work''),
       ''content'' \<mapsto> Json (JStr ''buy milk''),
       ''labels'' \<mapsto> Json (JArr [JStr ''urgent'', JStr ''home''])]]"


definition scenario_projectNames :: jsobj where
  "scenario_projectNames = [''1'' \<mapsto> Json (JStr ''Work'')]"

definition orphaned :: snapshot where
  "orphaned =
     \<lparr>items = [[''id'' \<mapsto> Json (JNum ''11''), ''project_id'' \<mapsto> Json (JNum ''99''),
                ''content'' \<mapsto> Json (JStr ''call back''),
                ''assigned_by_uid'' \<mapsto> Json JNull, ''added_by_uid'' \<mapsto> Json (JNum ''2''),
                ''user_id'' \<mapsto> Json (JNum ''5'')]],
      projects = [[''id'' \<mapsto> Json (JNum ''1''), ''name'' \<mapsto> Json (JStr ''Work'')]],
      collaborators = [[''id'' \<mapsto> Json (JNum ''2''), ''full_name'' \<mapsto> Json (JStr ''Ann'')]],
      user = Map.empty,
      completed = None\<rparr>"

definition orphaned_named :: "jsobj list" where
  "orphaned_named =
     [[''id'' \<mapsto> Json (JNum ''11''), ''project_id'' \<mapsto> Undefined,
       ''content'' \<mapsto> Json (JStr ''call back''),
       ''assigned_by_uid'' \<mapsto> Json JNull, ''added_by_uid'' \<mapsto> Json (JNum ''2''),
       ''user_id'' \<mapsto> Json (JNum ''5'')]]"

text \<open>
  Two completed tasks on two pages, a source that serves both pages and one that rejects
  the query for the second; an account with the premium flag and one without, and the
  runtimes in which the sync call resolves to each of them.
\<close>

definition scenario_denormalized :: "jsobj list" where
  "scenario_denormalized =
     [[''id'' \<mapsto> Json (JNum ''10''), ''project_id'' \<mapsto> Json (JStr ''Work''),
       ''content'' \<mapsto> Json (JStr ''buy milk''),
       ''labels'' \<mapsto> Json (JArr [JStr ''urgent'', JStr ''home'']),
       ''assigned_by_uid'' \<mapsto> Json JNull, ''added_by_uid'' \<mapsto> Json JNull,
       ''user_id'' \<mapsto> Json JNull]]"

definition task_a :: jsobj where
  "task_a = [''id'' \<mapsto> Json (JNum ''21''), ''content'' \<mapsto> Json (JStr ''file taxes'')]"

definition task_b :: jsobj where
  "task_b = [''id'' \<mapsto> Json (JNum ''22''), ''content'' \<mapsto> Json (JStr ''renew pass'')]"

definition first_page :: page where
  "first_page = \<lparr>results = Some [task_a], next_cursor = Some ''c1''\<rparr>"

definition last_page :: page where
  "last_page = \<lparr>results = Some [task_b], next_cursor = None\<rparr>"

definition two_pages :: "string \<Rightarrow> params \<Rightarrow> page_response" where
  "two_pages token query =
     (if cursor query = None then Resolved (Some first_page)
      else if cursor query = Some ''c1'' then Resolved (Some last_page)
      else Rejected)"



definition free_account :: snapshot where
  "free_account = scenario\<lparr>user := [''is_premium'' \<mapsto> Json (JBool False)]\<rparr>"


definition free_runtime :: runtime where
  "free_runtime =
     \<lparr>callApi_sync = (\<lambda>token. SyncResolved (Some free_account)),
      callRestApi_completed = two_pages,
      json2csv = (\<lambda>rows. Inr []),
      string_gt_zero = (\<lambda>s. False)\<rparr>"


definition untitled_runtime :: runtime where
  "untitled_runtime =
     \<lparr>callApi_sync = (\<lambda>token. SyncResolved (Some untitled)),
      callRestApi_completed = two_pages,
      json2csv = (\<lambda>rows. Inr []),
      string_gt_zero = (\<lambda>s. False)\<rparr>"

section \<open>Errors, and the map over the items\<close>

lemma ToString_error_aux:
  "(\<forall>e. ToString j = Inl e \<longrightarrow> e = TypeError) \<and> (\<forall>e. ToStrings js = Inl e \<longrightarrow> e = TypeError)"
  by (rule ToString_ToStrings.induct) (auto split: sum.splits option.splits json.splits)

lemma ToString_error: "ToString j = Inl e \<Longrightarrow> e = TypeError"
  using ToString_error_aux by blast

lemma ToStrings_error: "ToStrings js = Inl e \<Longrightarrow> e = TypeError"
  using ToString_error_aux by blast


lemma mapE_length: "mapE f xs = Inr ys \<Longrightarrow> length ys = length xs"
  by (induction xs arbitrary: ys) (auto split: sum.splits)

lemma mapE_nth: "mapE f xs = Inr ys \<Longrightarrow> i < length xs \<Longrightarrow> f (xs ! i) = Inr (ys ! i)"
proof (induction xs arbitrary: ys i)
  case Nil
  then show ?case by simp
next
  case (Cons x xs)
  then show ?case
    by (cases i) (auto split: sum.splits)
qed

lemma mapE_Inl: "mapE f xs = Inl e \<Longrightarrow> \<exists>x\<in>set xs. f x = Inl e"
  by (induction xs) (auto split: sum.splits)

lemma mapE_fails: "x \<in> set xs \<Longrightarrow> f x = Inl e \<Longrightarrow> \<exists>e'. mapE f xs = Inl e'"
  by (induction xs) (auto split: sum.splits)

lemma mapE_succeeds: "\<forall>x\<in>set xs. \<exists>y. f x = Inr y \<Longrightarrow> \<exists>ys. mapE f xs = Inr ys"
  by (induction xs) (auto split: sum.splits)

lemma mapE_image: "mapE f xs = Inr ys \<Longrightarrow> x \<in> set xs \<Longrightarrow> \<exists>y\<in>set ys. f x = Inr y"
  by (induction xs arbitrary: ys) (auto split: sum.splits)



lemma mapE_compose:
  assumes f: "\<And>x e. f x = Inl e \<Longrightarrow> e = TypeError"
    and g: "\<And>y e. g y = Inl e \<Longrightarrow> e = TypeError"
  shows "(case mapE f xs of Inl e \<Rightarrow> Inl e | Inr ys \<Rightarrow> mapE g ys)
           = mapE (\<lambda>x. case f x of Inl e \<Rightarrow> Inl e | Inr y \<Rightarrow> g y) xs"
proof (induction xs)
  case Nil
  then show ?case by simp
next
  case (Cons x xs)
  show ?case
  proof (cases "f x")
    case (Inl e)
    then show ?thesis by simp
  next
    case fx: (Inr y)
    show ?thesis
    proof (cases "mapE f xs")
      case (Inl e)
      then have e: "e = TypeError"
        using f by (blast dest: mapE_Inl)
      from Inl Cons.IH
      have rest: "mapE (\<lambda>x. case f x of Inl e \<Rightarrow> Inl e | Inr y \<Rightarrow> g y) xs = Inl e"
        by simp
      show ?thesis
        using fx Inl rest e g [of y] by (auto split: sum.splits)
    next
      case (Inr ys)
      with Cons.IH
      have "mapE (\<lambda>x. case f x of Inl e \<Rightarrow> Inl e | Inr y \<Rightarrow> g y) xs = mapE g ys"
        by simp
      with fx Inr show ?thesis by (cases "g y") simp_all
    qed
  qed
qed

lemma toString_method_error: "toString_method v = Inl e \<Longrightarrow> e = TypeError"
  by (auto simp: toString_method_def split: jsval.splits json.splits sum.splits option.splits
           dest: ToStrings_error)

lemma join_method_error: "join_method v = Inl e \<Longrightarrow> e = TypeError"
  by (auto simp: join_method_def split: jsval.splits json.splits sum.splits dest: ToStrings_error)

lemma gt_zero_error: "gt_zero z x = Inl e \<Longrightarrow> e = TypeError"
  by (auto simp: gt_zero_def split: json.splits sum.splits option.splits dest: ToStrings_error)

lemma length_gt_zero_error: "length_gt_zero z v = Inl e \<Longrightarrow> e = TypeError"
  by (auto simp: length_gt_zero_def split: jsval.splits json.splits option.splits
           dest: gt_zero_error)

lemma ToPropertyKey_error: "ToPropertyKey v = Inl e \<Longrightarrow> e = TypeError"
  by (auto simp: ToPropertyKey_def split: jsval.splits dest: ToString_error)

lemma member_error: "member t v = Inl e \<Longrightarrow> e = TypeError"
  by (auto simp: member_def split: sum.splits dest: ToPropertyKey_error)

lemma reduce_names_error: "reduce_names nf rs acc = Inl e \<Longrightarrow> e = TypeError"
  by (induction rs arbitrary: acc) (auto split: sum.splits dest: ToPropertyKey_error)

lemma escapeCommas_item_error: "escapeCommas_item z item = Inl e \<Longrightarrow> e = TypeError"
  by (auto simp: escapeCommas_item_def escaped_labels_def escaped_content_def
           split: sum.splits bool.splits
           dest: length_gt_zero_error join_method_error toString_method_error)

lemma escapeCommas_error: "escapeCommas z s = Inl e \<Longrightarrow> e = TypeError"
  unfolding escapeCommas_def
  by (auto dest!: mapE_Inl dest: escapeCommas_item_error)

lemma convertProjectNames_item_error:
  "convertProjectNames_item t item = Inl e \<Longrightarrow> e = TypeError"
  by (auto simp: convertProjectNames_item_def split: sum.splits dest: member_error)

lemma convertUserNames_item_error:
  "convertUserNames_item t item = Inl e \<Longrightarrow> e = TypeError"
  by (auto simp: convertUserNames_item_def split: sum.splits dest: member_error)

lemma convertProjectNames_error: "convertProjectNames s = Inl e \<Longrightarrow> e = TypeError"
  unfolding convertProjectNames_def convertProjectNames_item_def
  by (auto dest!: mapE_Inl split: sum.splits dest: reduce_names_error member_error)

lemma convertUserNames_error: "convertUserNames s = Inl e \<Longrightarrow> e = TypeError"
  unfolding convertUserNames_def convertUserNames_item_def
  by (auto dest!: mapE_Inl split: sum.splits dest: reduce_names_error member_error)

lemma field_other [simp]: "k \<noteq> k' \<Longrightarrow> field (item(k \<mapsto> v)) k' = field item k'"
  by (simp add: field_def)

section \<open>The CSV field sanitizer\<close>


lemma escapeCommas_item_content:
  assumes "escapeCommas_item z item = Inr item'"
  shows "\<exists>text. toString_method (field item ''content'') = Inr text \<and>
           item' ''content'' = Some (Json (JStr (CHR 0x22 # text @ [CHR 0x22])))"
  using assms
  by (auto simp: escapeCommas_item_def escaped_content_def quoted_def split: sum.splits)

lemma ToStrings_label_strings: "list_all is_string ls \<Longrightarrow> \<exists>ss. ToStrings ls = Inr ss"
  by (induction ls) (auto simp: is_string_def split: json.splits)

lemma escaped_labels_returns:
  assumes "label_list (field item ''labels'')"
  shows "\<exists>l. escaped_labels z item = Inr l"
proof (cases "field item ''labels''")
  case Undefined
  then show ?thesis
    by (simp add: escaped_labels_def length_gt_zero_def)
next
  case (Inherited name)
  with assms show ?thesis
    by (simp add: label_list_def)
next
  case (Json j)
  show ?thesis
  proof (cases j)
    case (JArr ls)
    with Json assms obtain ss where "ToStrings ls = Inr ss"
      using ToStrings_label_strings [of ls] by (auto simp: label_list_def)
    with Json JArr show ?thesis
      by (simp add: escaped_labels_def length_gt_zero_def join_method_def
            split: bool.splits)
  qed (use Json assms in \<open>simp_all add: label_list_def escaped_labels_def length_gt_zero_def\<close>)
qed

lemma escaped_content_returns:
  "textual (field item ''content'') \<Longrightarrow> \<exists>c. escaped_content item = Inr c"
  by (auto simp: textual_def escaped_content_def toString_method_def split: jsval.splits json.splits)

lemma escapeCommas_returns:
  assumes "\<forall>item\<in>set (items syncData).
             textual (field item ''content'') \<and> label_list (field item ''labels'')"
  shows "\<exists>out. escapeCommas z syncData = Inr out \<and> length out = length (items syncData)"
proof -
  have "\<forall>item\<in>set (items syncData). \<exists>y. escapeCommas_item z item = Inr y"
  proof
    fix item assume "item \<in> set (items syncData)"
    with assms have "textual (field item ''content'')" and "label_list (field item ''labels'')"
      by auto
    from escaped_labels_returns [OF this(2), where z = z] escaped_content_returns [OF this(1)]
    show "\<exists>y. escapeCommas_item z item = Inr y"
      by (auto simp: escapeCommas_item_def)
  qed
  then obtain out where "mapE (escapeCommas_item z) (items syncData) = Inr out"
    using mapE_succeeds by blast
  then show ?thesis
    by (auto simp: escapeCommas_def dest: mapE_length)
qed



text \<open>
  Claim C6 speaks of every item, whatever the type of its content. An item that has no
  \<^verbatim>\<open>content\<close> has none to wrap: \<^verbatim>\<open>item.content.toString()\<close> throws, and the call returns no
  item.
\<close>

theorem escapeCommas_content_not_total:
  "escapeCommas (\<lambda>s. False) contentless = Inl TypeError"
  by (simp add: escapeCommas_def escapeCommas_item_def escaped_labels_def escaped_content_def
        contentless_def length_gt_zero_def join_method_def toString_method_def field_def)

lemma escapeCommas_missing_content:
  assumes "item \<in> set (items syncData)"
    and "field item ''content'' = Undefined \<or> field item ''content'' = Json JNull"
  shows "escapeCommas z syncData = Inl TypeError"
proof -
  have "toString_method (field item ''content'') = Inl TypeError"
    using assms(2) by (auto simp: toString_method_def)
  then have "\<exists>e. escapeCommas_item z item = Inl e"
    by (auto simp: escapeCommas_item_def escaped_content_def split: sum.splits)
  then obtain e' where "mapE (escapeCommas_item z) (items syncData) = Inl e'"
    using mapE_fails [OF assms(1)] by blast
  then have "escapeCommas z syncData = Inl e'"
    by (simp add: escapeCommas_def)
  then show ?thesis
    using escapeCommas_error by blast
qed

text \<open>
  Claim C6, amended. Whenever \<^verbatim>\<open>escapeCommas\<close> returns, the \<^verbatim>\<open>content\<close> property of every
  output item is the string that \<^verbatim>\<open>toString()\<close> gives for the input content, with one quote
  character (code 0x22) before and one after, whatever the type of the content: the string
  itself for a string, the string of the number for a number, \<^verbatim>\<open>true\<close> or \<^verbatim>\<open>false\<close> for a boolean.
  The call does return on every snapshot whose items have a string, a number or a boolean
  as content and an absent, a null or a string-array label list; it throws when the content
  of some item is \<^verbatim>\<open>undefined\<close> or \<^verbatim>\<open>null\<close>.
\<close>

theorem escapeCommas_content:
  "(\<forall>out i. escapeCommas z syncData = Inr out \<and> i < length (items syncData) \<longrightarrow>
      (\<exists>str. toString_method (field (items syncData ! i) ''content'') = Inr str
           \<and> (out ! i) ''content'' = Some (Json (JStr (CHR 0x22 # str @ [CHR 0x22])))
           \<and> (\<forall>s. field (items syncData ! i) ''content'' = Json (JStr s) \<longrightarrow> str = s)
           \<and> (\<forall>n. field (items syncData ! i) ''content'' = Json (JNum n) \<longrightarrow> str = n)
           \<and> (\<forall>b. field (items syncData ! i) ''content'' = Json (JBool b) \<longrightarrow>
                  str = (if b then ''true'' else ''false''))))
   \<and> ((\<forall>item\<in>set (items syncData).
           textual (field item ''content'') \<and> label_list (field item ''labels''))
        \<longrightarrow> (\<exists>out. escapeCommas z syncData = Inr out \<and> length out = length (items syncData)))
   \<and> ((\<exists>item\<in>set (items syncData).
           field item ''content'' = Undefined \<or> field item ''content'' = Json JNull)
        \<longrightarrow> escapeCommas z syncData = Inl TypeError)"
proof (intro conjI)
  show "\<forall>out i. escapeCommas z syncData = Inr out \<and> i < length (items syncData) \<longrightarrow>
      (\<exists>str. toString_method (field (items syncData ! i) ''content'') = Inr str
           \<and> (out ! i) ''content'' = Some (Json (JStr (CHR 0x22 # str @ [CHR 0x22])))
           \<and> (\<forall>s. field (items syncData ! i) ''content'' = Json (JStr s) \<longrightarrow> str = s)
           \<and> (\<forall>n. field (items syncData ! i) ''content'' = Json (JNum n) \<longrightarrow> str = n)
           \<and> (\<forall>b. field (items syncData ! i) ''content'' = Json (JBool b) \<longrightarrow>
                  str = (if b then ''true'' else ''false'')))"
  proof (intro allI impI)
    fix out i
    assume "escapeCommas z syncData = Inr out \<and> i < length (items syncData)"
    then have "escapeCommas_item z (items syncData ! i) = Inr (out ! i)"
      by (simp add: escapeCommas_def mapE_nth)
    from escapeCommas_item_content [OF this] obtain str
      where str: "toString_method (field (items syncData ! i) ''content'') = Inr str"
        and out: "(out ! i) ''content'' = Some (Json (JStr (CHR 0x22 # str @ [CHR 0x22])))"
      by blast
    from str have "\<forall>s. field (items syncData ! i) ''content'' = Json (JStr s) \<longrightarrow> str = s"
      and "\<forall>n. field (items syncData ! i) ''content'' = Json (JNum n) \<longrightarrow> str = n"
      and "\<forall>b. field (items syncData ! i) ''content'' = Json (JBool b) \<longrightarrow>
                    str = (if b then ''true'' else ''false'')"
      by (auto simp: toString_method_def)
    with str out
    show "\<exists>str. toString_method (field (items syncData ! i) ''content'') = Inr str
             \<and> (out ! i) ''content'' = Some (Json (JStr (CHR 0x22 # str @ [CHR 0x22])))
             \<and> (\<forall>s. field (items syncData ! i) ''content'' = Json (JStr s) \<longrightarrow> str = s)
             \<and> (\<forall>n. field (items syncData ! i) ''content'' = Json (JNum n) \<longrightarrow> str = n)
             \<and> (\<forall>b. field (items syncData ! i) ''content'' = Json (JBool b) \<longrightarrow>
                    str = (if b then ''true'' else ''false''))"
      by blast
  qed
  show "(\<forall>item\<in>set (items syncData).
           textual (field item ''content'') \<and> label_list (field item ''labels''))
        \<longrightarrow> (\<exists>out. escapeCommas z syncData = Inr out \<and> length out = length (items syncData))"
    using escapeCommas_returns by blast
  show "(\<exists>item\<in>set (items syncData).
           field item ''content'' = Undefined \<or> field item ''content'' = Json JNull)
        \<longrightarrow> escapeCommas z syncData = Inl TypeError"
    using escapeCommas_missing_content by blast
qed

theorem escapeCommas_content_witness:
  "\<exists>out. escapeCommas (\<lambda>s. False) numbered = Inr out
     \<and> (out ! 0) ''content'' = Some (Json (JStr (CHR 0x22 # ''42'' @ [CHR 0x22])))"
proof -
  have typed: "\<forall>item\<in>set (items numbered).
           textual (field item ''content'') \<and> label_list (field item ''labels'')"
    by (simp add: numbered_def field_def textual_def label_list_def)
  have content: "field (items numbered ! 0) ''content'' = Json (JNum ''42'')"
    by (simp add: numbered_def field_def)
  have len: "0 < length (items numbered)"
    by (simp add: numbered_def)
  note claim = escapeCommas_content [of "\<lambda>s. False" numbered]
  from claim typed obtain out where run: "escapeCommas (\<lambda>s. False) numbered = Inr out"
    by blast
  with claim len content
  have "(out ! 0) ''content'' = Some (Json (JStr (CHR 0x22 # ''42'' @ [CHR 0x22])))"
    by (metis (no_types, lifting))
  with run show ?thesis
    by auto
qed

lemma convertProjectNames_item_content:
  "convertProjectNames_item t item = Inr item' \<Longrightarrow> field item' ''content'' = field item ''content''"
  by (auto simp: convertProjectNames_item_def split: sum.splits)

lemma convertUserNames_item_content:
  "convertUserNames_item t item = Inr item' \<Longrightarrow> field item' ''content'' = field item ''content''"
  by (auto simp: convertUserNames_item_def split: sum.splits)

lemma convertProjectNames_keeps_content:
  assumes "convertProjectNames s = Inr named" and "item \<in> set (items s)"
  shows "\<exists>item'\<in>set named. field item' ''content'' = field item ''content''"
proof -
  from assms(1) obtain t where "mapE (convertProjectNames_item t) (items s) = Inr named"
    by (auto simp: convertProjectNames_def split: sum.splits)
  from mapE_image [OF this assms(2)] obtain item'
    where "item' \<in> set named" and "convertProjectNames_item t item = Inr item'"
    by blast
  then show ?thesis
    by (blast dest: convertProjectNames_item_content)
qed

lemma convertUserNames_keeps_content:
  assumes "convertUserNames s = Inr usered" and "item \<in> set (items s)"
  shows "\<exists>item'\<in>set usered. field item' ''content'' = field item ''content''"
proof -
  from assms(1) obtain t where "mapE (convertUserNames_item t) (items s) = Inr usered"
    by (auto simp: convertUserNames_def split: sum.splits)
  from mapE_image [OF this assms(2)] obtain item'
    where "item' \<in> set usered" and "convertUserNames_item t item = Inr item'"
    by blast
  then show ?thesis
    by (blast dest: convertUserNames_item_content)
qed

lemma emit_csv_missing_content:
  assumes "item \<in> set (items syncData)"
    and "field item ''content'' = Undefined \<or> field item ''content'' = Json JNull"
  shows "emit rt ''csv'' syncData = Inl TypeError"
proof (cases "convertProjectNames syncData")
  case (Inl e)
  then show ?thesis
    by (auto simp: emit_def dest: convertProjectNames_error)
next
  case named: (Inr named)
  from convertProjectNames_keeps_content [OF named assms(1)] assms(2)
  obtain item1 where item1: "item1 \<in> set (items (syncData\<lparr>items := named\<rparr>))"
    "field item1 ''content'' = Undefined \<or> field item1 ''content'' = Json JNull"
    by auto
  show ?thesis
  proof (cases "convertUserNames (syncData\<lparr>items := named\<rparr>)")
    case (Inl e)
    with named show ?thesis
      by (auto simp: emit_def dest: convertUserNames_error)
  next
    case usered: (Inr usered)
    from convertUserNames_keeps_content [OF usered item1(1)] item1(2)
    obtain item2 where "item2 \<in> set (items (syncData\<lparr>items := usered\<rparr>))"
      "field item2 ''content'' = Undefined \<or> field item2 ''content'' = Json JNull"
      by auto
    then have "escapeCommas (string_gt_zero rt) (syncData\<lparr>items := usered\<rparr>) = Inl TypeError"
      by (rule escapeCommas_missing_content)
    with named usered show ?thesis
      by (simp add: emit_def)
  qed
qed

text \<open>
  Claim C10. \<^verbatim>\<open>escapeCommas\<close> is not total: when some item of the snapshot has no
  \<^verbatim>\<open>content\<close>, or a null one, the call throws a \<^verbatim>\<open>TypeError\<close> and returns no item at all;
  and a CSV export of a snapshot with such an item throws that error to the route handler
  instead of sending a file.
\<close>

theorem escapeCommas_throws_on_missing_content:
  assumes "item \<in> set (items syncData)"
    and "field item ''content'' = Undefined \<or> field item ''content'' = Json JNull"
  shows "escapeCommas z syncData = Inl TypeError
       \<and> (callApi_sync rt token = SyncResolved (Some syncData)
            \<longrightarrow> exportData rt token (Some ''csv'') = Some (Inl TypeError, []))"
proof -
  have "\<not> string_includes ''csv'' FORMAT_SUFFIX_INCLUDE_ARCHIVED"
    by (simp add: FORMAT_SUFFIX_INCLUDE_ARCHIVED_def)
  then have "exportData rt token (Some ''csv'') = Some (emit rt ''csv'' syncData, [])"
    if "callApi_sync rt token = SyncResolved (Some syncData)"
    using that by (simp add: exportData_def)
  then show ?thesis
    using assms by (simp add: escapeCommas_missing_content emit_csv_missing_content)
qed

theorem escapeCommas_throws_on_missing_content_witness:
  "escapeCommas (\<lambda>s. False) untitled = Inl TypeError
   \<and> exportData untitled_runtime ''token'' (Some ''csv'') = Some (Inl TypeError, [])"
proof -
  have "[''id'' \<mapsto> Json (JNum ''7''), ''content'' \<mapsto> Json JNull] \<in> set (items untitled)"
    by (simp add: untitled_def)
  moreover have "field [''id'' \<mapsto> Json (JNum ''7''), ''content'' \<mapsto> Json JNull] ''content'' = Undefined
      \<or> field [''id'' \<mapsto> Json (JNum ''7''), ''content'' \<mapsto> Json JNull] ''content'' = Json JNull"
    by (simp add: field_def)
  moreover have "callApi_sync untitled_runtime ''token'' = SyncResolved (Some untitled)"
    by (simp add: untitled_runtime_def)
  ultimately show ?thesis
    using escapeCommas_throws_on_missing_content by blast
qed

section \<open>The denormalizer\<close>

subsection \<open>The lookup tables\<close>

lemma ToPropertyKey_number: "ToPropertyKey (Json (JNum n)) = Inr n"
  by (simp add: ToPropertyKey_def)

lemma ToPropertyKey_scalar: "scalar v \<Longrightarrow> \<exists>k. ToPropertyKey v = Inr k"
  by (auto simp: scalar_def ToPropertyKey_def split: jsval.splits json.splits)

lemma member_scalar: "scalar v \<Longrightarrow> \<exists>w. member t v = Inr w"
  using ToPropertyKey_scalar [of v] by (auto simp: member_def)

lemma number_text_not_inherited: "number_text n \<Longrightarrow> n \<notin> set object_prototype_names"
  by (auto simp: number_text_def object_prototype_names_def)


lemma reduce_names_succeeds:
  "\<forall>r\<in>set rs. \<exists>k. ToPropertyKey (field r ''id'') = Inr k \<Longrightarrow> \<exists>t. reduce_names nf rs acc = Inr t"
  by (induction rs arbitrary: acc) auto

lemma reduce_names_other_key:
  "reduce_names nf rs acc = Inr t \<Longrightarrow> \<forall>r\<in>set rs. ToPropertyKey (field r ''id'') \<noteq> Inr k \<Longrightarrow> t k = acc k"
  by (induction rs arbitrary: acc) (auto split: sum.splits)



lemma member_dangling_number:
  assumes "reduce_names nf rs Map.empty = Inr t"
    and "\<forall>r\<in>set rs. \<exists>m. field r ''id'' = Json (JNum m)"
    and "\<forall>r\<in>set rs. field r ''id'' \<noteq> Json (JNum n)"
    and "number_text n"
  shows "member t (Json (JNum n)) = Inr Undefined"
proof -
  have "\<forall>r\<in>set rs. ToPropertyKey (field r ''id'') \<noteq> Inr n"
  proof
    fix r assume r: "r \<in> set rs"
    with assms(2) obtain m where m: "field r ''id'' = Json (JNum m)"
      by blast
    with assms(3) r have "m \<noteq> n"
      by auto
    with m show "ToPropertyKey (field r ''id'') \<noteq> Inr n"
      by (simp add: ToPropertyKey_number)
  qed
  with assms(1) have "t n = None"
    by (simp add: reduce_names_other_key)
  then show ?thesis
    using assms(4) by (simp add: member_def ToPropertyKey_number number_text_not_inherited)
qed

lemma convertProjectNames_item_result:
  "convertProjectNames_item t item = Inr item' \<Longrightarrow> member t (field item ''project_id'') = Inr v
     \<Longrightarrow> item' ''project_id'' = Some v"
  by (auto simp: convertProjectNames_item_def)

lemma convertUserNames_item_result:
  "convertUserNames_item t item = Inr item' \<Longrightarrow> role \<in> {''assigned_by_uid'', ''added_by_uid'', ''user_id''}
     \<Longrightarrow> member t (field item role) = Inr v \<Longrightarrow> item' role = Some (or_null v)"
  by (auto simp: convertUserNames_item_def split: sum.splits)

lemma or_null_Undefined: "or_null Undefined = Json JNull"
  by (simp add: or_null_def truthy_def)


subsection \<open>A second application\<close>

lemma scenario_table: "reduce_names ''name'' (projects scenario) Map.empty = Inr scenario_projectNames"
  by (simp add: scenario_def scenario_projectNames_def ToPropertyKey_def field_def)

lemma scenario_once: "convertProjectNames scenario = Inr scenario_named"
  by (simp add: convertProjectNames_def scenario_table)
     (simp add: scenario_def scenario_named_def scenario_projectNames_def
        convertProjectNames_item_def member_def ToPropertyKey_def field_def fun_eq_iff)






subsection \<open>The order of the two transforms\<close>

lemma item_callbacks_commute:
  "(case convertProjectNames_item p item of
      Inl e \<Rightarrow> Inl e | Inr named \<Rightarrow> convertUserNames_item u named)
   = (case convertUserNames_item u item of
      Inl e \<Rightarrow> Inl e | Inr usered \<Rightarrow> convertProjectNames_item p usered)"
proof (cases "member p (field item ''project_id'')")
  case (Inl e)
  then have "e = TypeError"
    by (rule member_error)
  with Inl show ?thesis
    by (auto simp: convertProjectNames_item_def convertUserNames_item_def
             split: sum.splits dest: member_error)
next
  case (Inr name)
  then show ?thesis
    by (auto simp: convertProjectNames_item_def convertUserNames_item_def fun_upd_twist
             split: sum.splits)
qed

text \<open>
  Claim C4. Running \<^verbatim>\<open>convertProjectNames\<close> and then \<^verbatim>\<open>convertUserNames\<close> on its items gives
  the same outcome as running them in the other order: the same list of items (each item
  the same map from property names to values), or a throw in both orders.
\<close>

theorem convert_names_commute:
  "(case convertProjectNames s of
      Inl e \<Rightarrow> Inl e | Inr named \<Rightarrow> convertUserNames (s\<lparr>items := named\<rparr>))
   = (case convertUserNames s of
      Inl e \<Rightarrow> Inl e | Inr usered \<Rightarrow> convertProjectNames (s\<lparr>items := usered\<rparr>))"
proof (cases "reduce_names ''name'' (projects s) Map.empty")
  case p: (Inl e)
  then have "e = TypeError"
    by (rule reduce_names_error)
  with p show ?thesis
    by (auto simp: convertProjectNames_def split: sum.splits dest: convertUserNames_error)
next
  case p: (Inr projectNames)
  show ?thesis
  proof (cases "reduce_names ''full_name'' (collaborators s) Map.empty")
    case u: (Inl e)
    then have "e = TypeError"
      by (rule reduce_names_error)
    with u show ?thesis
      by (auto simp: convertUserNames_def split: sum.splits dest: convertProjectNames_error)
  next
    case u: (Inr userNames)
    have "(case convertProjectNames s of
             Inl e \<Rightarrow> Inl e | Inr named \<Rightarrow> convertUserNames (s\<lparr>items := named\<rparr>))
          = (case mapE (convertProjectNames_item projectNames) (items s) of
             Inl e \<Rightarrow> Inl e | Inr named \<Rightarrow> mapE (convertUserNames_item userNames) named)"
      by (simp add: convertProjectNames_def convertUserNames_def p u cong: sum.case_cong)
    also have "\<dots> = mapE (\<lambda>item. case convertProjectNames_item projectNames item of
                     Inl e \<Rightarrow> Inl e | Inr named \<Rightarrow> convertUserNames_item userNames named) (items s)"
      by (rule mapE_compose) (auto dest: convertProjectNames_item_error convertUserNames_item_error)
    also have "\<dots> = mapE (\<lambda>item. case convertUserNames_item userNames item of
                     Inl e \<Rightarrow> Inl e | Inr usered \<Rightarrow> convertProjectNames_item projectNames usered) (items s)"
      by (simp add: item_callbacks_commute)
    also have "\<dots> = (case mapE (convertUserNames_item userNames) (items s) of
             Inl e \<Rightarrow> Inl e | Inr usered \<Rightarrow> mapE (convertProjectNames_item projectNames) usered)"
      by (rule mapE_compose [symmetric])
         (auto dest: convertProjectNames_item_error convertUserNames_item_error)
    also have "\<dots> = (case convertUserNames s of
             Inl e \<Rightarrow> Inl e | Inr usered \<Rightarrow> convertProjectNames (s\<lparr>items := usered\<rparr>))"
      by (simp add: convertProjectNames_def convertUserNames_def p u cong: sum.case_cong)
    finally show ?thesis .
  qed
qed

lemma scenario_no_collaborators:
  "reduce_names ''full_name'' (collaborators scenario) Map.empty = Inr Map.empty"
  by (simp add: scenario_def)

theorem convert_names_commute_witness:
  "(case convertUserNames scenario of
      Inl e \<Rightarrow> Inl e | Inr usered \<Rightarrow> convertProjectNames (scenario\<lparr>items := usered\<rparr>))
   = Inr scenario_denormalized"
proof -
  have "convertUserNames (scenario\<lparr>items := scenario_named\<rparr>) = Inr scenario_denormalized"
    by (simp add: convertUserNames_def scenario_no_collaborators)
       (simp add: scenario_named_def scenario_denormalized_def convertUserNames_item_def
          member_def ToPropertyKey_def field_def object_prototype_names_def or_null_def
          truthy_def fun_eq_iff)
  then have "(case convertProjectNames scenario of
      Inl e \<Rightarrow> Inl e | Inr named \<Rightarrow> convertUserNames (scenario\<lparr>items := named\<rparr>))
   = Inr scenario_denormalized"
    by (simp add: scenario_once)
  then show ?thesis
    using convert_names_commute [of scenario] by simp
qed

subsection \<open>Dangling references\<close>

text \<open>
  Claim C8 gives a dangling reference an explicit marker, distinct from a missing field,
  in both transforms. \<^verbatim>\<open>convertUserNames\<close> ends each lookup with \<^verbatim>\<open>|| null\<close>;
  \<^verbatim>\<open>convertProjectNames\<close> does not: for the item of the snapshot \<open>orphaned\<close>, whose project
  99 does not exist, it stores \<^verbatim>\<open>undefined\<close>, not \<^verbatim>\<open>null\<close>, and the property then reads as it
  does on an item that has no \<^verbatim>\<open>project_id\<close> at all.
\<close>

theorem dangling_project_is_undefined:
  "convertProjectNames orphaned = Inr orphaned_named
   \<and> field (orphaned_named ! 0) ''project_id'' = Undefined
   \<and> field (orphaned_named ! 0) ''project_id'' = field task_a ''project_id''
   \<and> field (orphaned_named ! 0) ''project_id'' \<noteq> Json JNull"
proof -
  have "reduce_names ''name'' (projects orphaned) Map.empty = Inr [''1'' \<mapsto> Json (JStr ''Work'')]"
    by (simp add: orphaned_def ToPropertyKey_def field_def)
  then have "convertProjectNames orphaned = Inr orphaned_named"
    by (simp add: convertProjectNames_def)
       (simp add: orphaned_def orphaned_named_def convertProjectNames_item_def member_def
          ToPropertyKey_def field_def object_prototype_names_def fun_eq_iff)
  then show ?thesis
    by (simp add: orphaned_named_def task_a_def field_def)
qed

text \<open>
  Claim C8, amended. In a snapshot whose projects and collaborators have numbers as
  identifiers and whose items refer to them by identifiers (values that are not arrays or
  objects), \<^verbatim>\<open>convertProjectNames\<close> and \<^verbatim>\<open>convertUserNames\<close> both return, with one item per
  input item. For a user role whose id is a number that no collaborator has as its id, the
  output item has that property with the value \<^verbatim>\<open>null\<close>. For an item whose \<^verbatim>\<open>project_id\<close> is
  a number that no project has as its id, the output item has the property \<^verbatim>\<open>project_id\<close>
  with the value \<^verbatim>\<open>undefined\<close>, which reads as a missing property does. Neither holds the
  number any more.
\<close>

theorem dangling_references:
  assumes project_ids: "\<forall>p\<in>set (projects s). \<exists>m. field p ''id'' = Json (JNum m)"
    and collaborator_ids: "\<forall>c\<in>set (collaborators s). \<exists>m. field c ''id'' = Json (JNum m)"
    and references: "\<forall>item\<in>set (items s).
        scalar (field item ''project_id'') \<and> scalar (field item ''assigned_by_uid'')
        \<and> scalar (field item ''added_by_uid'') \<and> scalar (field item ''user_id'')"
  shows "\<exists>named usered.
      convertProjectNames s = Inr named \<and> length named = length (items s)
      \<and> convertUserNames s = Inr usered \<and> length usered = length (items s)
      \<and> (\<forall>i n. i < length (items s)
            \<and> field (items s ! i) ''project_id'' = Json (JNum n) \<and> number_text n
            \<and> (\<forall>p\<in>set (projects s). field p ''id'' \<noteq> Json (JNum n))
            \<longrightarrow> (named ! i) ''project_id'' = Some Undefined
              \<and> field (named ! i) ''project_id'' = field Map.empty ''project_id'')
      \<and> (\<forall>i n role. i < length (items s)
            \<and> role \<in> {''assigned_by_uid'', ''added_by_uid'', ''user_id''}
            \<and> field (items s ! i) role = Json (JNum n) \<and> number_text n
            \<and> (\<forall>c\<in>set (collaborators s). field c ''id'' \<noteq> Json (JNum n))
            \<longrightarrow> (usered ! i) role = Some (Json JNull))"
proof -
  have "\<forall>r\<in>set (projects s). \<exists>k. ToPropertyKey (field r ''id'') = Inr k"
    using project_ids by (metis ToPropertyKey_number)
  from reduce_names_succeeds [OF this] obtain projectNames
    where pt: "reduce_names ''name'' (projects s) Map.empty = Inr projectNames"
    by blast
  have "\<forall>r\<in>set (collaborators s). \<exists>k. ToPropertyKey (field r ''id'') = Inr k"
    using collaborator_ids by (metis ToPropertyKey_number)
  from reduce_names_succeeds [OF this] obtain userNames
    where ut: "reduce_names ''full_name'' (collaborators s) Map.empty = Inr userNames"
    by blast
  have "\<forall>item\<in>set (items s). \<exists>y. convertProjectNames_item projectNames item = Inr y"
  proof
    fix item assume "item \<in> set (items s)"
    with references have "scalar (field item ''project_id'')"
      by blast
    from member_scalar [OF this, of projectNames]
    show "\<exists>y. convertProjectNames_item projectNames item = Inr y"
      by (auto simp: convertProjectNames_item_def)
  qed
  then obtain named where named: "mapE (convertProjectNames_item projectNames) (items s) = Inr named"
    using mapE_succeeds by blast
  have "\<forall>item\<in>set (items s). \<exists>y. convertUserNames_item userNames item = Inr y"
  proof
    fix item assume "item \<in> set (items s)"
    with references have "scalar (field item ''assigned_by_uid'')"
      and "scalar (field item ''added_by_uid'')" and "scalar (field item ''user_id'')"
      by blast+
    from member_scalar [OF this(1), of userNames] member_scalar [OF this(2), of userNames]
      member_scalar [OF this(3), of userNames]
    show "\<exists>y. convertUserNames_item userNames item = Inr y"
      by (auto simp: convertUserNames_item_def)
  qed
  then obtain usered where usered: "mapE (convertUserNames_item userNames) (items s) = Inr usered"
    using mapE_succeeds by blast
  have p_dangling: "(named ! i) ''project_id'' = Some Undefined
      \<and> field (named ! i) ''project_id'' = field Map.empty ''project_id''"
    if "i < length (items s)" and "field (items s ! i) ''project_id'' = Json (JNum n)"
      and "number_text n"
      and "\<forall>p\<in>set (projects s). field p ''id'' \<noteq> Json (JNum n)" for i n
  proof -
    have "convertProjectNames_item projectNames (items s ! i) = Inr (named ! i)"
      using named that(1) by (rule mapE_nth)
    moreover have "member projectNames (Json (JNum n)) = Inr Undefined"
      using pt project_ids that(4,3) by (rule member_dangling_number)
    ultimately have "(named ! i) ''project_id'' = Some Undefined"
      using that(2) by (simp add: convertProjectNames_item_result)
    then show ?thesis
      by (simp add: field_def)
  qed
  have u_dangling: "(usered ! i) role = Some (Json JNull)"
    if "i < length (items s)" and "role \<in> {''assigned_by_uid'', ''added_by_uid'', ''user_id''}"
      and "field (items s ! i) role = Json (JNum n)" and "number_text n"
      and "\<forall>c\<in>set (collaborators s). field c ''id'' \<noteq> Json (JNum n)" for i n role
  proof -
    have "convertUserNames_item userNames (items s ! i) = Inr (usered ! i)"
      using usered that(1) by (rule mapE_nth)
    moreover have "member userNames (Json (JNum n)) = Inr Undefined"
      using ut collaborator_ids that(5,4) by (rule member_dangling_number)
    ultimately have "(usered ! i) role = Some (or_null Undefined)"
      using that(2,3) by (simp add: convertUserNames_item_result)
    then show ?thesis
      by (simp add: or_null_Undefined)
  qed
  have "convertProjectNames s = Inr named" "convertUserNames s = Inr usered"
    by (simp_all add: convertProjectNames_def convertUserNames_def pt ut named usered)
  moreover have "length named = length (items s)" "length usered = length (items s)"
    using named usered by (auto dest: mapE_length)
  ultimately show ?thesis
    using p_dangling u_dangling by blast
qed

theorem dangling_references_witness:
  "\<exists>named usered.
      convertProjectNames orphaned = Inr named \<and> convertUserNames orphaned = Inr usered
      \<and> (named ! 0) ''project_id'' = Some Undefined
      \<and> (usered ! 0) ''user_id'' = Some (Json JNull)"
proof -
  have project_ids: "\<forall>p\<in>set (projects orphaned). \<exists>m. field p ''id'' = Json (JNum m)"
    by (simp add: orphaned_def field_def)
  have collaborator_ids: "\<forall>c\<in>set (collaborators orphaned). \<exists>m. field c ''id'' = Json (JNum m)"
    by (simp add: orphaned_def field_def)
  have references: "\<forall>item\<in>set (items orphaned).
        scalar (field item ''project_id'') \<and> scalar (field item ''assigned_by_uid'')
        \<and> scalar (field item ''added_by_uid'') \<and> scalar (field item ''user_id'')"
    by (simp add: orphaned_def field_def scalar_def)
  from dangling_references [OF project_ids collaborator_ids references]
  obtain named usered where run: "convertProjectNames orphaned = Inr named"
      "convertUserNames orphaned = Inr usered"
    and p: "\<And>i n. i < length (items orphaned)
            \<and> field (items orphaned ! i) ''project_id'' = Json (JNum n) \<and> number_text n
            \<and> (\<forall>p\<in>set (projects orphaned). field p ''id'' \<noteq> Json (JNum n))
            \<Longrightarrow> (named ! i) ''project_id'' = Some Undefined
              \<and> field (named ! i) ''project_id'' = field Map.empty ''project_id''"
    and u: "\<And>i n role. i < length (items orphaned)
            \<and> role \<in> {''assigned_by_uid'', ''added_by_uid'', ''user_id''}
            \<and> field (items orphaned ! i) role = Json (JNum n) \<and> number_text n
            \<and> (\<forall>c\<in>set (collaborators orphaned). field c ''id'' \<noteq> Json (JNum n))
            \<Longrightarrow> (usered ! i) role = Some (Json JNull)"
    by blast
  have "(named ! 0) ''project_id'' = Some Undefined
      \<and> field (named ! 0) ''project_id'' = field Map.empty ''project_id''"
    by (rule p [of 0 "''99''"]) (simp add: orphaned_def field_def number_text_def)
  moreover have "(usered ! 0) ''user_id'' = Some (Json JNull)"
    by (rule u [of 0 "''user_id''" "''5''"]) (simp add: orphaned_def field_def number_text_def)
  ultimately show ?thesis
    using run by blast
qed

section \<open>The paginator\<close>







section \<open>The export\<close>

text \<open>
  Claim C7 gives the failure of the premium gate a status of the 4xx class. The gate calls
  \<^verbatim>\<open>renderErrorPage\<close> without an error object, so the status is the default, 500.
\<close>

theorem premium_gate_status:
  "exportData free_runtime ''token'' (Some ''csv_all'')
     = Some (Inr (ErrorPage 500 ''Must be Todoist Premium to export archived items.''), [])
   \<and> \<not> client_error_status 500"
  by (simp add: exportData_def free_runtime_def free_account_def scenario_def
        FORMAT_SUFFIX_INCLUDE_ARCHIVED_def truthy_def field_def renderErrorPage_def
        client_error_status_def)

text \<open>
  Claim C7, amended. When the format contains the suffix and the premium flag of the
  snapshot's user is not truthy, \<^verbatim>\<open>exportData\<close> renders the error page with the message
  of the gate and the status 500, and sends no query to the completed-tasks endpoint.
\<close>

theorem premium_gate:
  assumes "callApi_sync rt token = SyncResolved (Some syncData)"
    and "string_includes format FORMAT_SUFFIX_INCLUDE_ARCHIVED"
    and "\<not> truthy (field (user syncData) ''is_premium'')"
  shows "exportData rt token (Some format)
     = Some (Inr (ErrorPage 500 ''Must be Todoist Premium to export archived items.''), [])"
  using assms by (simp add: exportData_def renderErrorPage_def)

theorem premium_gate_witness:
  "exportData free_runtime ''token'' (Some ''json_all'')
     = Some (Inr (ErrorPage 500 ''Must be Todoist Premium to export archived items.''), [])"
proof -
  have "callApi_sync free_runtime ''token'' = SyncResolved (Some free_account)"
    by (simp add: free_runtime_def)
  moreover have "string_includes ''json_all'' FORMAT_SUFFIX_INCLUDE_ARCHIVED"
    by (simp add: FORMAT_SUFFIX_INCLUDE_ARCHIVED_def)
  moreover have "\<not> truthy (field (user free_account) ''is_premium'')"
    by (simp add: free_account_def truthy_def field_def)
  ultimately show ?thesis
    by (rule premium_gate)
qed




end
